theory Spec2Isabelle
  imports Complex_Main "HOL-Library.Finite_Map"
begin

section \<open>Series reducer (src/components/price-chart.tsx)\<close>

text \<open>
  The chart component receives \<open>data: { time: number; price: number }[]\<close> and a
  \<open>timeRange\<close>.  The reducer only moves points around: it never computes with a
  timestamp or a price, so both field types are left as type parameters (the same
  definitions then serve the statically typed view, numbers, and whatever values the
  historical fetch stored at run time).
\<close>

datatype TimeRange = R24h | R7d | R30d | R90d | R1y

record ('t, 'p) point =
  time :: 't
  price :: 'p

record ('l, 'p) reduced =
  labels :: "'l list"
  prices :: "'p list"

text \<open>
  The divisor in each branch of \<open>getReducedData\<close> (lines 35 to 39), named
  \<open>target\<close> after the specification.
\<close>

fun target :: "TimeRange \<Rightarrow> nat" where
  "target R24h = 24"
| "target R7d = 7"
| "target R30d = 30"
| "target R90d = 45"
| "target R1y = 52"

text \<open>
  \<open>let step = 1; if (timeRange === "24h") step = Math.max(1, Math.floor(data.length / 24))
  else if ...\<close>.  On array lengths \<open>Math.floor(n / k)\<close> is the integer quotient.
\<close>

definition step_of :: "TimeRange \<Rightarrow> nat \<Rightarrow> nat" where
  "step_of timeRange n =
     (if timeRange = R24h then max 1 (n div 24)
      else if timeRange = R7d then max 1 (n div 7)
      else if timeRange = R30d then max 1 (n div 30)
      else if timeRange = R90d then max 1 (n div 45)
      else max 1 (n div 52))"

text \<open>
  \<open>data.filter((_, index) => index % step === 0)\<close>: the callback sees each element
  together with its zero-based index; \<open>filter_index\<close> carries the index along.
\<close>

fun filter_index :: "(nat \<Rightarrow> bool) \<Rightarrow> nat \<Rightarrow> 'a list \<Rightarrow> 'a list" where
  "filter_index keep i [] = []"
| "filter_index keep i (x # xs) =
     (if keep i then x # filter_index keep (Suc i) xs else filter_index keep (Suc i) xs)"

text \<open>
  \<open>formatTime\<close> renders a timestamp through the browser's locale; it is a parameter
  here, applied with the current time range exactly where the source applies it.
\<close>

definition getReducedData ::
  "(TimeRange \<Rightarrow> 't \<Rightarrow> 'l) \<Rightarrow> ('t, 'p) point list \<Rightarrow> TimeRange \<Rightarrow> ('l, 'p) reduced" where
  "getReducedData formatTime data timeRange =
     (if length data = 0 then \<lparr>labels = [], prices = []\<rparr>
      else
        let step = step_of timeRange (length data);
            reducedData = filter_index (\<lambda>index. index mod step = 0) 0 data
        in \<lparr>labels = map (\<lambda>d. formatTime timeRange (time d)) reducedData,
            prices = map (\<lambda>d. price d) reducedData\<rparr>)"

text \<open>
  \<open>ceil_div n s\<close> is the number of multiples of \<open>s\<close> below \<open>n\<close>, that is
  \<open>\<lceil>n / s\<rceil>\<close> on the naturals (lemma \<open>ceiling_div_nat\<close>); it is a device of
  the proofs, not a function of the program.
\<close>

definition ceil_div :: "nat \<Rightarrow> nat \<Rightarrow> nat" where
  "ceil_div n s = (if n mod s = 0 then n div s else Suc (n div s))"


section \<open>Favorites and search (src/components/crypto-tracker.tsx)\<close>

text \<open>
  \<open>const [favorites, setFavorites] = useState<string[]>([])\<close>.  \<open>toggleFavorite\<close>
  passes \<open>setFavorites\<close> a function of the previous array; that function is the model.
  \<open>prev.includes(id)\<close> is membership, \<open>[...prev, id]\<close> appends.
\<close>

definition toggleFavorite :: "string \<Rightarrow> string list \<Rightarrow> string list" where
  "toggleFavorite ident prev =
     (if ident \<in> set prev then filter (\<lambda>item. item \<noteq> ident) prev
      else prev @ [ident])"

text \<open>\<open>isFavorite={favorites.includes(selectedCrypto.id)}\<close> (line 189).\<close>

definition isFavorite :: "string list \<Rightarrow> string \<Rightarrow> bool" where
  "isFavorite favorites ident = (ident \<in> set favorites)"

text \<open>
  The exported type \<open>Crypto\<close>.  Numbers are kept as reals; nothing below computes with
  them.  The fields \<open>id\<close> and \<open>image\<close> are renamed because HOL has constants of
  these names.
\<close>

record Crypto =
  ident :: string
  symbol :: string
  name :: string
  image_ref :: string
  current_price :: real
  market_cap :: real
  market_cap_rank :: real
  price_change_percentage_24h :: real
  price_change_percentage_7d_in_currency :: "real option"
  sparkline_in_7d :: "real list option"
  favorite :: "bool option"

text \<open>
  \<open>String.prototype.includes\<close>: does \<open>t\<close> occur in \<open>s\<close> as a contiguous run.
  \<open>startsWith s t\<close> compares \<open>t\<close> with the beginning of \<open>s\<close>; \<open>includes_str\<close> tries
  every position of \<open>s\<close> (\<open>includes\<close> itself is a keyword of Isabelle).
\<close>

fun startsWith :: "string \<Rightarrow> string \<Rightarrow> bool" where
  "startsWith s [] = True"
| "startsWith [] (c # t) = False"
| "startsWith (a # s) (c # t) = (a = c \<and> startsWith s t)"

fun includes_str :: "string \<Rightarrow> string \<Rightarrow> bool" where
  "includes_str [] t = (t = [])"
| "includes_str (a # s) t = (startsWith (a # s) t \<or> includes_str s t)"

text \<open>
  The effect of lines 80 to 91, as the function from \<open>searchTerm\<close> and \<open>cryptos\<close> to
  the value it stores in \<open>filteredCryptos\<close>.  \<open>if (searchTerm)\<close> is false exactly for
  the empty string.  \<open>String.prototype.toLowerCase\<close> is the built-in of the language
  and comes in as the parameter \<open>toLowerCase\<close>.
\<close>

definition filterCryptos :: "(string \<Rightarrow> string) \<Rightarrow> string \<Rightarrow> Crypto list \<Rightarrow> Crypto list" where
  "filterCryptos toLowerCase searchTerm cryptos =
     (if searchTerm \<noteq> [] then
        filter (\<lambda>crypto.
            includes_str (toLowerCase (name crypto)) (toLowerCase searchTerm)
          \<or> includes_str (toLowerCase (symbol crypto)) (toLowerCase searchTerm)) cryptos
      else cryptos)"

text \<open>
  \<open>toLowerCase\<close> on ASCII text, where it maps \<open>A\<close> to \<open>Z\<close> onto \<open>a\<close> to \<open>z\<close> and
  leaves every other character alone; used to run the filter on concrete inputs.
\<close>

definition ascii_lower :: "char \<Rightarrow> char" where
  "ascii_lower c =
     (case map_of (zip ''ABCDEFGHIJKLMNOPQRSTUVWXYZ'' ''abcdefghijklmnopqrstuvwxyz'') c of
        Some d \<Rightarrow> d
      | None \<Rightarrow> c)"

definition ascii_toLowerCase :: "string \<Rightarrow> string" where
  "ascii_toLowerCase s = map ascii_lower s"


section \<open>Values at run time\<close>

text \<open>
  \<open>response.json()\<close> and \<open>JSON.parse\<close> return \<open>any\<close>: the type annotations of the
  callers are not checked when the program runs.  The fetch and load paths are therefore
  modelled on the values JavaScript really holds there.  An object is the finite map of
  its own properties.
\<close>

datatype jsval =
    JUndefined
  | JNull
  | JBool bool
  | JNum real
  | JStr string
  | JArr "jsval list"
  | JObj "(string, jsval) fmap"

text \<open>
  A thrown value.  The handlers only ask \<open>err instanceof Error\<close> and read
  \<open>err.message\<close>.
\<close>

datatype thrown = ErrorObject string | NonError

text \<open>\<open>err instanceof Error ? err.message : "An error occurred"\<close>.\<close>

fun errorMessage :: "thrown \<Rightarrow> string" where
  "errorMessage (ErrorObject message) = message"
| "errorMessage NonError = ''An error occurred''"

text \<open>
  A \<open>TypeError\<close> raised by the engine is an \<open>Error\<close>; its text is the engine's own
  (V8's wording is used below, and no statement depends on it).
\<close>

definition TypeError :: "string \<Rightarrow> thrown" where
  "TypeError message = ErrorObject message"

text \<open>
  Reading a named property, \<open>v.k\<close>.  It throws on \<open>undefined\<close> and \<open>null\<close>.  The
  names this program reads (\<open>id\<close>, \<open>prices\<close>, \<open>market_data\<close>,
  \<open>price_change_percentage_...\<close>) are defined by no prototype and are neither an index
  nor \<open>length\<close>, so on a primitive or an array the result is \<open>undefined\<close>.
\<close>

fun getField :: "jsval \<Rightarrow> string \<Rightarrow> thrown + jsval" where
  "getField JUndefined k = Inl (TypeError ''Cannot read properties of undefined'')"
| "getField JNull k = Inl (TypeError ''Cannot read properties of null'')"
| "getField (JObj m) k = Inr (case fmlookup m k of None \<Rightarrow> JUndefined | Some v \<Rightarrow> v)"
| "getField (JBool b) k = Inr JUndefined"
| "getField (JNum x) k = Inr JUndefined"
| "getField (JStr s) k = Inr JUndefined"
| "getField (JArr xs) k = Inr JUndefined"

text \<open>The decimal numeral of an index: the property key of an array element.\<close>

fun decimal :: "nat \<Rightarrow> string" where
  "decimal n =
     (if n < 10 then [char_of (48 + n)]
      else decimal (n div 10) @ [char_of (48 + n mod 10)])"

text \<open>Reading an index, \<open>v[n]\<close>.\<close>

fun getIndex :: "jsval \<Rightarrow> nat \<Rightarrow> thrown + jsval" where
  "getIndex JUndefined n = Inl (TypeError ''Cannot read properties of undefined'')"
| "getIndex JNull n = Inl (TypeError ''Cannot read properties of null'')"
| "getIndex (JArr xs) n = Inr (if n < length xs then xs ! n else JUndefined)"
| "getIndex (JStr s) n = Inr (if n < length s then JStr [s ! n] else JUndefined)"
| "getIndex (JObj m) n = Inr (case fmlookup m (decimal n) of None \<Rightarrow> JUndefined | Some v \<Rightarrow> v)"
| "getIndex (JBool b) n = Inr JUndefined"
| "getIndex (JNum x) n = Inr JUndefined"

text \<open>
  The own enumerable properties that an object spread \<open>{...v}\<close> copies: those of an
  object, the elements of an array and the characters of a string under their indices,
  and nothing for the other values.
\<close>

fun ownProps :: "jsval \<Rightarrow> (string, jsval) fmap" where
  "ownProps (JObj m) = m"
| "ownProps (JArr xs) = fmap_of_list (zip (map decimal [0..<length xs]) xs)"
| "ownProps (JStr s) = fmap_of_list (zip (map decimal [0..<length s]) (map (\<lambda>c. JStr [c]) s))"
| "ownProps JUndefined = fmempty"
| "ownProps JNull = fmempty"
| "ownProps (JBool b) = fmempty"
| "ownProps (JNum x) = fmempty"

text \<open>
  \<open>Array.prototype.map\<close> with a callback that may throw: the first exception ends the
  traversal.
\<close>

fun mapThrowing :: "('a \<Rightarrow> thrown + 'b) \<Rightarrow> 'a list \<Rightarrow> thrown + 'b list" where
  "mapThrowing f [] = Inr []"
| "mapThrowing f (x # xs) =
     (case f x of
        Inl e \<Rightarrow> Inl e
      | Inr y \<Rightarrow> (case mapThrowing f xs of Inl e \<Rightarrow> Inl e | Inr ys \<Rightarrow> Inr (y # ys)))"

text \<open>
  The call \<open>v.map(f)\<close>.  Only an array has a \<open>map\<close> method; a JSON object with a
  property of that name holds no function there.
\<close>

fun callMap :: "jsval \<Rightarrow> (jsval \<Rightarrow> thrown + 'b) \<Rightarrow> thrown + 'b list" where
  "callMap (JArr xs) f = mapThrowing f xs"
| "callMap JUndefined f = Inl (TypeError ''Cannot read properties of undefined'')"
| "callMap JNull f = Inl (TypeError ''Cannot read properties of null'')"
| "callMap (JBool b) f = Inl (TypeError ''map is not a function'')"
| "callMap (JNum x) f = Inl (TypeError ''map is not a function'')"
| "callMap (JStr s) f = Inl (TypeError ''map is not a function'')"
| "callMap (JObj m) f = Inl (TypeError ''map is not a function'')"

text \<open>
  What the network answers.  \<open>await fetch(url)\<close> either rejects (\<open>Inl\<close>, a network
  error) or yields a response with its \<open>ok\<close> flag; \<open>await response.json()\<close> either
  rejects (the body is not JSON) or yields the parsed value.
\<close>

datatype response = Response (ok: bool) (json: "thrown + jsval")

type_synonym fetched = "thrown + response"


section \<open>Listing refresh and favorites load (src/components/crypto-tracker.tsx)\<close>

text \<open>
  The state that \<open>fetchCryptos\<close> writes.  At run time \<open>cryptos\<close> holds whatever
  objects the mapping of the payload produced.
\<close>

record tracker_state =
  cryptos :: "jsval list"
  filteredCryptos :: "jsval list"
  loading :: bool
  error :: "string option"

text \<open>
  \<open>favorites.includes(x)\<close> for the string array \<open>favorites\<close> and an arbitrary value
  \<open>x\<close>: only a string can be equal to an element.
\<close>

fun arrayIncludes :: "string list \<Rightarrow> jsval \<Rightarrow> bool" where
  "arrayIncludes favorites (JStr s) = (s \<in> set favorites)"
| "arrayIncludes favorites JUndefined = False"
| "arrayIncludes favorites JNull = False"
| "arrayIncludes favorites (JBool b) = False"
| "arrayIncludes favorites (JNum x) = False"
| "arrayIncludes favorites (JArr xs) = False"
| "arrayIncludes favorites (JObj m) = False"

text \<open>
  The callback of line 51: \<open>(crypto) => ({ ...crypto, favorite: favorites.includes(crypto.id) })\<close>.
  The spread accepts every value; reading \<open>crypto.id\<close> throws on \<open>null\<close>.
\<close>

definition withFavorite :: "string list \<Rightarrow> jsval \<Rightarrow> thrown + jsval" where
  "withFavorite favorites crypto =
     (case getField crypto ''id'' of
        Inl e \<Rightarrow> Inl e
      | Inr i \<Rightarrow> Inr (JObj (fmupd ''favorite'' (JBool (arrayIncludes favorites i)) (ownProps crypto))))"

text \<open>
  The \<open>try\<close> block of \<open>fetchCryptos\<close> (lines 40 to 54), up to the two state updates:
  \<open>Inl\<close> is the exception that reaches \<open>catch\<close>, \<open>Inr\<close> the array
  \<open>cryptosWithFavorites\<close>.
\<close>

definition cryptosWithFavorites :: "string list \<Rightarrow> fetched \<Rightarrow> thrown + jsval list" where
  "cryptosWithFavorites favorites fetched =
     (case fetched of
        Inl e \<Rightarrow> Inl e
      | Inr response \<Rightarrow>
          if \<not> ok response then
            Inl (ErrorObject ''Failed to fetch data. API rate limit may have been reached.'')
          else
            (case json response of
               Inl e \<Rightarrow> Inl e
             | Inr data \<Rightarrow> callMap data (withFavorite favorites)))"

text \<open>
  \<open>fetchCryptos\<close>: \<open>favorites\<close> is the array the closure captured, \<open>fetched\<close> the
  answer of the network to the listing request.
\<close>

definition fetchCryptos :: "string list \<Rightarrow> fetched \<Rightarrow> tracker_state \<Rightarrow> tracker_state" where
  "fetchCryptos favorites fetched s =
     (let s1 = s\<lparr>loading := True, error := None\<rparr>;
          s2 = (case cryptosWithFavorites favorites fetched of
                  Inr cs \<Rightarrow> s1\<lparr>cryptos := cs, filteredCryptos := cs\<rparr>
                | Inl err \<Rightarrow> s1\<lparr>error := Some (errorMessage err)\<rparr>)
      in s2\<lparr>loading := False\<rparr>)"

text \<open>
  What the page shows of \<open>error\<close>: \<open>{error && (...)}\<close> renders the box for a string
  that is not empty.
\<close>

definition errorShown :: "string option \<Rightarrow> bool" where
  "errorShown e = (case e of None \<Rightarrow> False | Some message \<Rightarrow> message \<noteq> [])"

text \<open>
  The first three lines of the mount effect (lines 66 to 70).  \<open>savedFavorites\<close> is what
  \<open>localStorage.getItem\<close> returned (\<open>None\<close> for \<open>null\<close>), and \<open>parsed\<close> is what
  \<open>JSON.parse(savedFavorites)\<close> does, a built-in: it throws (\<open>Inl\<close>) or returns a
  value.  \<open>if (savedFavorites)\<close> is false for \<open>null\<close> and for the empty string.  The
  result is the value of \<open>favorites\<close> after the effect, starting from the initial
  \<open>[]\<close>; there is no \<open>try\<close> around the call, so an exception leaves the effect
  (\<open>Inl\<close>).
\<close>

definition loadFavorites :: "string option \<Rightarrow> thrown + jsval \<Rightarrow> thrown + jsval" where
  "loadFavorites savedFavorites parsed =
     (case savedFavorites of
        None \<Rightarrow> Inr (JArr [])
      | Some saved \<Rightarrow>
          if saved \<noteq> [] then (case parsed of Inl e \<Rightarrow> Inl e | Inr v \<Rightarrow> Inr v)
          else Inr (JArr []))"


section \<open>Detail view (crypto-detail, src/unnamed/part_001)\<close>

text \<open>
  The state of \<open>CryptoDetail\<close>.  \<open>loading\<close> and \<open>error\<close> carry the prefix
  \<open>detail_\<close> to keep them apart from the fields of the tracker.  \<open>console\<close> collects
  what \<open>console.error\<close> received.
\<close>

record detail_state =
  detailData :: jsval
  detail_loading :: bool
  detail_error :: "string option"
  timeRange :: TimeRange
  chartData :: "(jsval, jsval) point list"
  console :: "thrown list"

text \<open>The \<open>switch\<close> of \<open>fetchHistoricalData\<close>; its \<open>default\<close> is outside the type.\<close>

fun days :: "TimeRange \<Rightarrow> nat" where
  "days R24h = 1"
| "days R7d = 7"
| "days R30d = 30"
| "days R90d = 90"
| "days R1y = 365"

text \<open>
  The callback of line 110: \<open>(item) => ({ time: item[0], price: item[1] })\<close>.
\<close>

definition toPoint :: "jsval \<Rightarrow> thrown + (jsval, jsval) point" where
  "toPoint item =
     (case getIndex item 0 of
        Inl e \<Rightarrow> Inl e
      | Inr t \<Rightarrow> (case getIndex item 1 of
                     Inl e \<Rightarrow> Inl e
                   | Inr p \<Rightarrow> Inr \<lparr>time = t, price = p\<rparr>))"

text \<open>
  The \<open>try\<close> block of \<open>fetchHistoricalData\<close> up to \<open>formattedData\<close>.
\<close>

definition formattedData :: "fetched \<Rightarrow> thrown + (jsval, jsval) point list" where
  "formattedData fetched =
     (case fetched of
        Inl e \<Rightarrow> Inl e
      | Inr response \<Rightarrow>
          if \<not> ok response then Inl (ErrorObject ''Failed to fetch chart data'')
          else
            (case json response of
               Inl e \<Rightarrow> Inl e
             | Inr data \<Rightarrow>
                 (case getField data ''prices'' of
                    Inl e \<Rightarrow> Inl e
                  | Inr ps \<Rightarrow> callMap ps toPoint)))"

text \<open>
  \<open>fetchHistoricalData\<close>: \<open>market_chart\<close> is the answer of the network to the
  request for a number of days.  The \<open>catch\<close> clause calls \<open>console.error\<close> and
  nothing else.
\<close>

definition fetchHistoricalData ::
  "(nat \<Rightarrow> fetched) \<Rightarrow> TimeRange \<Rightarrow> detail_state \<Rightarrow> detail_state" where
  "fetchHistoricalData market_chart range' s =
     (case formattedData (market_chart (days range')) of
        Inr points \<Rightarrow> s\<lparr>chartData := points, timeRange := range'\<rparr>
      | Inl err \<Rightarrow> s\<lparr>console := console s @ [err]\<rparr>)"

text \<open>
  \<open>fetchCryptoDetail\<close> (lines 53 to 73): \<open>coin\<close> is the answer to the detail
  request.  \<open>fetchHistoricalData\<close> catches its own exceptions, so awaiting it never
  reaches the \<open>catch\<close> of this function.
\<close>

definition fetchCryptoDetail ::
  "fetched \<Rightarrow> (nat \<Rightarrow> fetched) \<Rightarrow> detail_state \<Rightarrow> detail_state" where
  "fetchCryptoDetail coin market_chart s =
     (let s1 = s\<lparr>detail_loading := True, detail_error := None\<rparr>;
          body = (case coin of
                    Inl e \<Rightarrow> Inl e
                  | Inr response \<Rightarrow>
                      if \<not> ok response then
                        Inl (ErrorObject
                          ''Failed to fetch detailed data. API rate limit may have been reached.'')
                      else json response);
          s2 = (case body of
                  Inr data \<Rightarrow> fetchHistoricalData market_chart (timeRange s1) (s1\<lparr>detailData := data\<rparr>)
                | Inl err \<Rightarrow> s1\<lparr>detail_error := Some (errorMessage err)\<rparr>)
      in s2\<lparr>detail_loading := False\<rparr>)"

text \<open>
  \<open>priceChangePercent\<close> (lines 175 to 178): the key is built from the time range and
  looked up in \<open>detailData.market_data\<close>.
\<close>

definition priceChangeKey :: "TimeRange \<Rightarrow> string" where
  "priceChangeKey range' =
     ''price_change_percentage_'' @
       (if range' = R24h then ''24h''
        else if range' = R7d then ''7d''
        else if range' = R30d then ''30d''
        else if range' = R90d then ''60d''
        else ''1y'')"

definition priceChangePercent :: "jsval \<Rightarrow> TimeRange \<Rightarrow> thrown + jsval" where
  "priceChangePercent detail range' =
     (case getField detail ''market_data'' of
        Inl e \<Rightarrow> Inl e
      | Inr market_data \<Rightarrow> getField market_data (priceChangeKey range'))"


section \<open>Sample inputs\<close>

text \<open>
  Concrete values on which the definitions above are run further down: a series whose
  point \<open>i\<close> has timestamp \<open>i\<close> and price \<open>2 * i\<close>, a label function that shows the
  timestamp itself, two assets, a snapshot holding two listed assets, a fresh detail
  view, a chart request answered with a status that is not a success, and a
  \<open>market_data\<close> object that has a 60 day and a 90 day field.
\<close>

definition ramp :: "nat \<Rightarrow> (nat, nat) point list" where
  "ramp n = map (\<lambda>i. \<lparr>time = i, price = 2 * i\<rparr>) [0..<n]"

definition plainLabel :: "TimeRange \<Rightarrow> nat \<Rightarrow> nat" where
  "plainLabel r t = t"

definition btc :: Crypto where
  "btc = \<lparr>ident = ''bitcoin'', symbol = ''btc'', name = ''Bitcoin'', image_ref = ''/btc.png'',
     current_price = 1, market_cap = 1, market_cap_rank = 1, price_change_percentage_24h = 0,
     price_change_percentage_7d_in_currency = None, sparkline_in_7d = None, favorite = None\<rparr>"

definition eth :: Crypto where
  "eth = \<lparr>ident = ''ethereum'', symbol = ''eth'', name = ''Ethereum'', image_ref = ''/eth.png'',
     current_price = 1, market_cap = 1, market_cap_rank = 2, price_change_percentage_24h = 0,
     price_change_percentage_7d_in_currency = None, sparkline_in_7d = None, favorite = None\<rparr>"

definition listed :: "string \<Rightarrow> jsval" where
  "listed i = JObj (fmap_of_list [(''id'', JStr i), (''favorite'', JBool False)])"

definition snapshot0 :: tracker_state where
  "snapshot0 = \<lparr>cryptos = [listed ''bitcoin'', listed ''ethereum''],
                 filteredCryptos = [listed ''bitcoin'', listed ''ethereum''],
                 loading = False, error = None\<rparr>"

definition detail0 :: detail_state where
  "detail0 = \<lparr>detailData = JNull, detail_loading = False, detail_error = None,
               timeRange = R7d, chartData = [], console = []\<rparr>"

definition chart_unavailable :: "nat \<Rightarrow> fetched" where
  "chart_unavailable n = Inr (Response False (Inr JNull))"

definition market0 :: jsval where
  "market0 = JObj (fmap_of_list
     [(''price_change_percentage_24h'', JNum 1), (''price_change_percentage_7d'', JNum 2),
      (''price_change_percentage_30d'', JNum 3), (''price_change_percentage_60d'', JNum 4),
      (''price_change_percentage_90d'', JNum 5), (''price_change_percentage_1y'', JNum 6)])"


section \<open>The series reducer: how many points, and which\<close>

subsection \<open>The kept indices\<close>

text \<open>
  \<open>filter_index\<close> from offset \<open>i\<close> keeps the elements at the positions \<open>j\<close> with
  \<open>keep (i + j)\<close>, in order.
\<close>

lemma filter_index_upt:
  "filter_index keep i xs = map (\<lambda>j. xs ! j) (filter (\<lambda>j. keep (i + j)) [0..<length xs])"
proof (induction xs arbitrary: i)
  case Nil
  show ?case by simp
next
  case (Cons x xs)
  have upt: "[0..<length (x # xs)] = 0 # map Suc [0..<length xs]"
    by (simp add: upt_conv_Cons map_Suc_upt del: upt_Suc)
  show ?case
    unfolding upt using Cons.IH [of "Suc i"] by (simp add: filter_map comp_def)
qed

lemma filter_index_nths:
  "filter_index keep i xs = nths xs {j. keep (i + j)}"
  by (induction xs arbitrary: i) (simp_all add: nths_Cons)

subsection \<open>Rounding up on the naturals\<close>

lemma ceiling_div_nat:
  fixes n s :: nat
  assumes "0 < s"
  shows "nat \<lceil>real n / real s\<rceil> = ceil_div n s"
proof -
  have "\<lceil>real n / real s\<rceil> = - (- int n div int s)"
    using ceiling_divide_eq_div [of "int n" "int s"] by simp
  also have "\<dots> = int (ceil_div n s)"
    using assms
    by (simp add: ceil_div_def zdiv_zminus1_eq_if zmod_int [symmetric] zdiv_int [symmetric]
          del: of_nat_mod of_nat_div)
  finally show ?thesis by simp
qed

lemma ceil_div_Suc:
  assumes "0 < s"
  shows "ceil_div (Suc n) s = (if n mod s = 0 then Suc (ceil_div n s) else ceil_div n s)"
  using assms by (auto simp: ceil_div_def mod_Suc div_Suc)

lemma ceil_div_pos: "0 < n \<Longrightarrow> 0 < s \<Longrightarrow> 0 < ceil_div n s"
  by (auto simp: ceil_div_def div_greater_zero_iff dest: mod_less_divisor [of s n] intro: Suc_leI
           simp: mod_eq_0_iff_dvd dvd_imp_le)

lemma ceil_div_index:
  assumes "0 < s" "k < ceil_div n s"
  shows "k * s < n"
proof (cases "n mod s = 0")
  case True
  from assms(2) True have "k < n div s" by (simp add: ceil_div_def)
  then have "Suc k * s \<le> (n div s) * s" by (simp only: Suc_le_eq [symmetric] mult_le_mono1)
  also have "\<dots> \<le> n" by simp
  finally show ?thesis using assms by simp
next
  case False
  from assms(2) False have "k \<le> n div s" by (simp add: ceil_div_def)
  then have "k * s \<le> (n div s) * s" by (rule mult_le_mono1)
  moreover have "(n div s) * s < n"
    using div_mult_mod_eq [of n s] False by arith
  ultimately show ?thesis by (rule le_less_trans)
qed

text \<open>The multiples of \<open>s\<close> below \<open>n\<close> are \<open>0, s, 2 s, ...\<close>, \<open>ceil_div n s\<close> of them.\<close>

lemma multiples_upt:
  assumes "0 < s"
  shows "filter (\<lambda>j. j mod s = 0) [0..<n] = map (\<lambda>k. k * s) [0..<ceil_div n s]"
proof (induction n)
  case 0
  from assms show ?case by (simp add: ceil_div_def)
next
  case (Suc n)
  show ?case
  proof (cases "n mod s = 0")
    case True
    then have "n = ceil_div n s * s"
      using div_mult_mod_eq [of n s] by (simp add: ceil_div_def)
    with Suc True ceil_div_Suc [OF assms, of n] show ?thesis by simp
  next
    case False
    with Suc ceil_div_Suc [OF assms, of n] show ?thesis by simp
  qed
qed

lemma reduced_nth:
  assumes "0 < s"
  shows "filter_index (\<lambda>index. index mod s = 0) 0 xs
       = map (\<lambda>k. xs ! (k * s)) [0..<ceil_div (length xs) s]"
  using multiples_upt [OF assms, of "length xs"]
  by (simp add: filter_index_upt comp_def)

text \<open>
  With rounding down, the step can be as small as 1 while the series is almost twice
  the target: \<open>n = q t + m\<close> with \<open>m < t\<close> leaves \<open>t\<close> points and up to \<open>m\<close> more.
\<close>

lemma ceil_div_bound:
  assumes "0 < t"
  shows "ceil_div n (max 1 (n div t)) \<le> 2 * t - 1"
proof (cases "n < t")
  case True
  then show ?thesis by (simp add: ceil_div_def)
next
  case False
  define q where "q = n div t"
  define m where "m = n mod t"
  from False assms have q: "1 \<le> q" unfolding q_def by (simp add: Suc_le_eq div_greater_zero_iff)
  have n: "n = q * t + m" unfolding q_def m_def by simp
  have m: "m < t" unfolding m_def using assms by simp
  have d: "n div q = t + m div q" unfolding n using q by simp
  have r: "n mod q = m mod q" unfolding n by simp
  have "ceil_div n q \<le> t + m"
  proof (cases "m mod q = 0")
    case True
    with d r show ?thesis by (simp add: ceil_div_def)
  next
    case False
    then have "q \<noteq> 1" by auto
    with q have "1 < q" by simp
    moreover from False have "0 < m" by (cases m) simp_all
    ultimately have "m div q < m" by (rule div_less_dividend)
    with False d r show ?thesis by (simp add: ceil_div_def)
  qed
  with m q show ?thesis unfolding q_def by (simp add: max_def)
qed

subsection \<open>The step and the two output arrays\<close>

lemma step_of_target: "step_of r n = max 1 (n div target r)"
  by (cases r) (simp_all add: step_of_def)

lemma step_of_pos: "0 < step_of r n"
  by (simp add: step_of_target)

lemma reducedData_prices:
  "prices (getReducedData fmt data r)
     = map price (filter_index (\<lambda>index. index mod step_of r (length data) = 0) 0 data)"
  by (simp add: getReducedData_def Let_def)

lemma reducedData_labels:
  "labels (getReducedData fmt data r)
     = map (\<lambda>d. fmt r (time d)) (filter_index (\<lambda>index. index mod step_of r (length data) = 0) 0 data)"
  by (simp add: getReducedData_def Let_def)

lemma kept_length:
  "length (filter_index (\<lambda>index. index mod step_of r (length data) = 0) 0 data)
     = ceil_div (length data) (step_of r (length data))"
  by (simp add: reduced_nth [OF step_of_pos])

lemma getReducedData_prices_length:
  "length (prices (getReducedData fmt data r)) = ceil_div (length data) (step_of r (length data))"
  by (simp only: reducedData_prices length_map kept_length)

lemma getReducedData_labels_length:
  "length (labels (getReducedData fmt data r)) = ceil_div (length data) (step_of r (length data))"
  by (simp only: reducedData_labels length_map kept_length)

text \<open>
  Claim C1.  For every series \<open>data\<close> of length \<open>n\<close> and every time range, the reducer
  returns \<open>\<lceil>n / step\<rceil>\<close> prices and as many labels, where
  \<open>step = max 1 (n div target r)\<close> with the targets 24, 7, 30, 45 and 52; the step is at
  least 1; and the empty series gives the empty result.
\<close>

theorem getReducedData_length:
  "length (prices (getReducedData fmt data r))
      = nat \<lceil>real (length data) / real (step_of r (length data))\<rceil>
   \<and> length (labels (getReducedData fmt data r))
      = nat \<lceil>real (length data) / real (step_of r (length data))\<rceil>
   \<and> step_of r (length data) = max 1 (length data div target r)
   \<and> 1 \<le> step_of r (length data)
   \<and> getReducedData fmt [] r = \<lparr>labels = [], prices = []\<rparr>"
proof -
  have "0 < step_of r (length data)" by (rule step_of_pos)
  then have c: "nat \<lceil>real (length data) / real (step_of r (length data))\<rceil>
      = ceil_div (length data) (step_of r (length data))"
    by (rule ceiling_div_nat)
  have "step_of r (length data) = max 1 (length data div target r)"
    by (rule step_of_target)
  moreover have "1 \<le> step_of r (length data)"
    using step_of_pos [of r "length data"] by simp
  moreover have "getReducedData fmt [] r = \<lparr>labels = [], prices = []\<rparr>"
    by (simp add: getReducedData_def)
  ultimately show ?thesis
    using c getReducedData_prices_length [of fmt data r] getReducedData_labels_length [of fmt data r]
    by simp
qed

text \<open>
  Claim C2, as stated, fails: 100 points at range \<open>7d\<close> give step 14 and the 8 points
  at the indices 0, 14, ..., 98, one more than the target 7.
\<close>

theorem getReducedData_target_counterexample:
  "length (prices (getReducedData plainLabel (ramp 100) R7d)) = 8
   \<and> \<not> length (prices (getReducedData plainLabel (ramp 100) R7d)) \<le> target R7d"
  by (simp add: getReducedData_prices_length step_of_def ceil_div_def ramp_def)

text \<open>
  Claim C2, amended.  The display series has at most \<open>2 * target r - 1\<close> points: 47 for
  \<open>24h\<close>, 13 for \<open>7d\<close>, 59 for \<open>30d\<close>, 89 for \<open>90d\<close> and 103 for \<open>1y\<close>.
\<close>

theorem getReducedData_bound:
  "length (prices (getReducedData fmt data r)) \<le> 2 * target r - 1
   \<and> length (labels (getReducedData fmt data r)) \<le> 2 * target r - 1"
proof -
  have "0 < target r" by (cases r) simp_all
  then have "ceil_div (length data) (step_of r (length data)) \<le> 2 * target r - 1"
    unfolding step_of_target by (rule ceil_div_bound)
  then show ?thesis
    by (simp add: getReducedData_prices_length getReducedData_labels_length)
qed

text \<open>The bound is reached by a series of exactly \<open>2 * target r - 1\<close> points.\<close>

lemma getReducedData_bound_attained:
  "length (prices (getReducedData plainLabel (ramp (2 * target r - 1)) r)) = 2 * target r - 1"
  by (cases r) (simp_all add: getReducedData_prices_length step_of_def ceil_div_def ramp_def)

text \<open>
  Claim C3.  For a series that is not empty, the reducer keeps exactly the points whose
  index is divisible by the step, in order, and shows both fields of each of them: the
  prices are the prices of these points and the labels are their timestamps, formatted.
  Output \<open>k\<close> is the point at index \<open>k * step\<close>, the first output is the point at
  index 0, and every output price is the price of a point of the series.
\<close>

theorem getReducedData_decimates:
  assumes "data \<noteq> []"
  shows "prices (getReducedData fmt data r)
           = map price (nths data {i. i mod step_of r (length data) = 0})
       \<and> (\<forall>k < length (prices (getReducedData fmt data r)).
             k * step_of r (length data) < length data
           \<and> prices (getReducedData fmt data r) ! k = price (data ! (k * step_of r (length data))))
       \<and> 0 < length (prices (getReducedData fmt data r))
       \<and> prices (getReducedData fmt data r) ! 0 = price (data ! 0)
       \<and> set (prices (getReducedData fmt data r)) \<subseteq> price ` set data
       \<and> labels (getReducedData fmt data r)
           = map (\<lambda>d. fmt r (time d)) (nths data {i. i mod step_of r (length data) = 0})
       \<and> length (labels (getReducedData fmt data r)) = length (prices (getReducedData fmt data r))
       \<and> (\<forall>k < length (labels (getReducedData fmt data r)).
             labels (getReducedData fmt data r) ! k
               = fmt r (time (data ! (k * step_of r (length data)))))
       \<and> labels (getReducedData fmt data r) ! 0 = fmt r (time (data ! 0))"
proof -
  let ?s = "step_of r (length data)"
  let ?ps = "prices (getReducedData fmt data r)"
  let ?ls = "labels (getReducedData fmt data r)"
  have s: "0 < ?s" by (rule step_of_pos)
  have sel: "?ps = map price (nths data {i. i mod ?s = 0})"
    by (simp add: reducedData_prices filter_index_nths)
  have nth: "?ps = map (\<lambda>k. price (data ! (k * ?s))) [0..<ceil_div (length data) ?s]"
    by (simp add: reducedData_prices reduced_nth [OF s])
  have len: "length ?ps = ceil_div (length data) ?s"
    by (rule getReducedData_prices_length)
  have each: "\<forall>k < length ?ps. k * ?s < length data \<and> ?ps ! k = price (data ! (k * ?s))"
  proof (intro allI impI conjI)
    fix k assume k: "k < length ?ps"
    with len show "k * ?s < length data" using ceil_div_index [OF s] by simp
    from k len have "k < ceil_div (length data) ?s" by simp
    then show "?ps ! k = price (data ! (k * ?s))" by (subst nth) simp
  qed
  from assms have pos: "0 < length ?ps"
    unfolding len using s by (intro ceil_div_pos) simp_all
  with each have first: "?ps ! 0 = price (data ! 0)" by fastforce
  have sub: "set ?ps \<subseteq> price ` set data"
    unfolding sel using set_nths_subset [of data] by auto
  have lsel: "?ls = map (\<lambda>d. fmt r (time d)) (nths data {i. i mod ?s = 0})"
    by (simp add: reducedData_labels filter_index_nths)
  have lnth: "?ls = map (\<lambda>k. fmt r (time (data ! (k * ?s)))) [0..<ceil_div (length data) ?s]"
    by (simp add: reducedData_labels reduced_nth [OF s])
  have llen: "length ?ls = length ?ps"
    unfolding len by (rule getReducedData_labels_length)
  have leach: "\<forall>k < length ?ls. ?ls ! k = fmt r (time (data ! (k * ?s)))"
  proof (intro allI impI)
    fix k assume "k < length ?ls"
    with llen len have "k < ceil_div (length data) ?s" by simp
    then show "?ls ! k = fmt r (time (data ! (k * ?s)))" by (subst lnth) simp
  qed
  from pos llen have "0 < length ?ls" by simp
  with leach have lfirst: "?ls ! 0 = fmt r (time (data ! 0))" by fastforce
  from sel each pos first sub lsel llen leach lfirst show ?thesis by blast
qed

text \<open>
  Fifteen points at range \<open>7d\<close>: the step is 2, and every second point is kept with its
  price and its label.
\<close>

theorem getReducedData_decimates_witness:
  "ramp 15 \<noteq> []
   \<and> prices (getReducedData plainLabel (ramp 15) R7d) = [0, 4, 8, 12, 16, 20, 24, 28]
   \<and> prices (getReducedData plainLabel (ramp 15) R7d) ! 3 = price (ramp 15 ! (3 * 2))
   \<and> labels (getReducedData plainLabel (ramp 15) R7d) = [0, 2, 4, 6, 8, 10, 12, 14]
   \<and> labels (getReducedData plainLabel (ramp 15) R7d) ! 3
       = plainLabel R7d (time (ramp 15 ! (3 * 2)))"
proof -
  have ne: "ramp 15 \<noteq> []" by (simp add: ramp_def)
  have st: "step_of R7d (length (ramp 15)) = 2" by (simp add: step_of_def ramp_def)
  have ps: "prices (getReducedData plainLabel (ramp 15) R7d) = [0, 4, 8, 12, 16, 20, 24, 28]"
    by code_simp
  have ls: "labels (getReducedData plainLabel (ramp 15) R7d) = [0, 2, 4, 6, 8, 10, 12, 14]"
    by code_simp
  note t = getReducedData_decimates [OF ne, of plainLabel R7d]
  from t
  have "\<forall>k < length (prices (getReducedData plainLabel (ramp 15) R7d)).
          prices (getReducedData plainLabel (ramp 15) R7d) ! k
            = price (ramp 15 ! (k * step_of R7d (length (ramp 15))))"
    by blast
  moreover have "3 < length (prices (getReducedData plainLabel (ramp 15) R7d))"
    unfolding ps by simp
  ultimately have "prices (getReducedData plainLabel (ramp 15) R7d) ! 3
      = price (ramp 15 ! (3 * step_of R7d (length (ramp 15))))"
    by blast
  then have p3: "prices (getReducedData plainLabel (ramp 15) R7d) ! 3 = price (ramp 15 ! (3 * 2))"
    unfolding st .
  from t
  have "\<forall>k < length (labels (getReducedData plainLabel (ramp 15) R7d)).
          labels (getReducedData plainLabel (ramp 15) R7d) ! k
            = plainLabel R7d (time (ramp 15 ! (k * step_of R7d (length (ramp 15)))))"
    by blast
  moreover have "3 < length (labels (getReducedData plainLabel (ramp 15) R7d))"
    unfolding ls by simp
  ultimately have "labels (getReducedData plainLabel (ramp 15) R7d) ! 3
      = plainLabel R7d (time (ramp 15 ! (3 * step_of R7d (length (ramp 15)))))"
    by blast
  then have l3: "labels (getReducedData plainLabel (ramp 15) R7d) ! 3
      = plainLabel R7d (time (ramp 15 ! (3 * 2)))"
    unfolding st .
  from ne ps p3 ls l3 show ?thesis by blast
qed


section \<open>Search filter\<close>

text \<open>
  \<open>includes_str s t\<close> holds exactly when \<open>t\<close> occurs in \<open>s\<close>: some prefix \<open>p\<close> and
  some suffix \<open>q\<close> surround it.
\<close>

lemma startsWith_iff: "startsWith s t \<longleftrightarrow> (\<exists>q. s = t @ q)"
  by (induction s t rule: startsWith.induct) auto

lemma includes_str_iff: "includes_str s t \<longleftrightarrow> (\<exists>p q. s = p @ t @ q)"
proof (induction s)
  case Nil
  show ?case by auto
next
  case (Cons a s)
  show ?case
  proof
    assume "includes_str (a # s) t"
    then consider "startsWith (a # s) t" | "includes_str s t" by auto
    then show "\<exists>p q. a # s = p @ t @ q"
    proof cases
      case 1
      then obtain q where "a # s = t @ q" unfolding startsWith_iff ..
      then have "a # s = [] @ t @ q" by simp
      then show ?thesis by blast
    next
      case 2
      with Cons.IH obtain p q where "s = p @ t @ q" by blast
      then have "a # s = (a # p) @ t @ q" by simp
      then show ?thesis by blast
    qed
  next
    assume "\<exists>p q. a # s = p @ t @ q"
    then obtain p q where pq: "a # s = p @ t @ q" by blast
    show "includes_str (a # s) t"
    proof (cases p)
      case Nil
      with pq have "startsWith (a # s) t" unfolding startsWith_iff by auto
      then show ?thesis by simp
    next
      case (Cons b p')
      with pq have "s = p' @ t @ q" by simp
      with Cons.IH have "includes_str s t" by blast
      then show ?thesis by simp
    qed
  qed
qed

text \<open>
  Claim C4.  With a search term that is not empty, an asset is in the filtered list
  exactly when it is in the asset list and the lowercased term occurs in its lowercased
  name or in its lowercased symbol; with the empty term the list is returned as it is.
  This holds for every lowercasing function.
\<close>

theorem filterCryptos_substring:
  "(searchTerm \<noteq> [] \<longrightarrow>
      (\<forall>c. c \<in> set (filterCryptos toLowerCase searchTerm assets) \<longleftrightarrow>
           c \<in> set assets
         \<and> ((\<exists>p q. toLowerCase (name c) = p @ toLowerCase searchTerm @ q)
          \<or> (\<exists>p q. toLowerCase (symbol c) = p @ toLowerCase searchTerm @ q))))
   \<and> filterCryptos toLowerCase [] assets = assets"
  by (simp add: filterCryptos_def includes_str_iff)

text \<open>The term \<open>BIT\<close> finds Bitcoin and not Ethereum.\<close>

theorem filterCryptos_substring_witness:
  "''BIT'' \<noteq> []
   \<and> btc \<in> set (filterCryptos ascii_toLowerCase ''BIT'' [btc, eth])
   \<and> eth \<notin> set (filterCryptos ascii_toLowerCase ''BIT'' [btc, eth])
   \<and> ascii_toLowerCase (name btc) = [] @ ascii_toLowerCase ''BIT'' @ ''coin''"
proof -
  have l: "ascii_toLowerCase ''BIT'' = ''bit''" "ascii_toLowerCase (name btc) = ''bitcoin''"
    "ascii_toLowerCase (symbol btc) = ''btc''"
    "ascii_toLowerCase (name eth) = ''ethereum''" "ascii_toLowerCase (symbol eth) = ''eth''"
    by (simp_all add: ascii_toLowerCase_def ascii_lower_def btc_def eth_def)
  have a: "ascii_toLowerCase (name btc) = [] @ ascii_toLowerCase ''BIT'' @ ''coin''"
    unfolding l by simp
  have n1: "\<not> (\<exists>p q. ascii_toLowerCase (name eth) = p @ ascii_toLowerCase ''BIT'' @ q)"
    unfolding l includes_str_iff [symmetric] by simp
  have n2: "\<not> (\<exists>p q. ascii_toLowerCase (symbol eth) = p @ ascii_toLowerCase ''BIT'' @ q)"
    unfolding l includes_str_iff [symmetric] by simp
  from filterCryptos_substring [of "''BIT''" ascii_toLowerCase "[btc, eth]"]
  have iff: "\<forall>c. c \<in> set (filterCryptos ascii_toLowerCase ''BIT'' [btc, eth]) \<longleftrightarrow>
           c \<in> set [btc, eth]
         \<and> ((\<exists>p q. ascii_toLowerCase (name c) = p @ ascii_toLowerCase ''BIT'' @ q)
          \<or> (\<exists>p q. ascii_toLowerCase (symbol c) = p @ ascii_toLowerCase ''BIT'' @ q))"
    by simp
  from iff a have "btc \<in> set (filterCryptos ascii_toLowerCase ''BIT'' [btc, eth])"
    by (metis list.set_intros(1))
  moreover from iff n1 n2 have "eth \<notin> set (filterCryptos ascii_toLowerCase ''BIT'' [btc, eth])"
    by blast
  ultimately show ?thesis using a by simp
qed


section \<open>Favorites\<close>

lemma count_list_remove_other:
  "j \<noteq> i \<Longrightarrow> count_list (filter (\<lambda>item. item \<noteq> i) xs) j = count_list xs j"
  by (induction xs) simp_all

text \<open>
  Claim C5.  Toggling the same identifier twice gives back the same set of favorites,
  and one toggle negates the membership of the identifier.
\<close>

theorem toggleFavorite_involution:
  "set (toggleFavorite i (toggleFavorite i favorites)) = set favorites
   \<and> isFavorite (toggleFavorite i favorites) i = (\<not> isFavorite favorites i)"
  by (auto simp: toggleFavorite_def isFavorite_def)

text \<open>
  Claim C10.  A toggle keeps a list without duplicates free of duplicates.  An
  identifier that is present is filtered out, so that no occurrence remains and the
  other identifiers keep their count; an identifier that is absent is appended at the
  end and occurs once.
\<close>

theorem toggleFavorite_distinct:
  "(distinct favorites \<longrightarrow> distinct (toggleFavorite i favorites))
   \<and> (i \<in> set favorites \<longrightarrow>
         toggleFavorite i favorites = filter (\<lambda>item. item \<noteq> i) favorites
       \<and> count_list (toggleFavorite i favorites) i = 0
       \<and> (\<forall>j. j \<noteq> i \<longrightarrow> count_list (toggleFavorite i favorites) j = count_list favorites j))
   \<and> (i \<notin> set favorites \<longrightarrow>
         toggleFavorite i favorites = favorites @ [i]
       \<and> count_list (toggleFavorite i favorites) i = 1)"
proof (intro conjI impI allI)
  assume "distinct favorites"
  then show "distinct (toggleFavorite i favorites)"
    by (simp add: toggleFavorite_def)
next
  assume "i \<in> set favorites"
  then show "toggleFavorite i favorites = filter (\<lambda>item. item \<noteq> i) favorites"
    by (simp add: toggleFavorite_def)
  then show "count_list (toggleFavorite i favorites) i = 0"
    by (simp add: count_list_0_iff)
next
  fix j assume "i \<in> set favorites" "j \<noteq> i"
  then show "count_list (toggleFavorite i favorites) j = count_list favorites j"
    by (simp add: toggleFavorite_def count_list_remove_other)
next
  assume "i \<notin> set favorites"
  then show "toggleFavorite i favorites = favorites @ [i]"
    by (simp add: toggleFavorite_def)
  with \<open>i \<notin> set favorites\<close> show "count_list (toggleFavorite i favorites) i = 1"
    by (simp add: count_list_0_iff)
qed

theorem toggleFavorite_distinct_witness:
  "distinct [''bitcoin'', ''ethereum''] \<and> ''bitcoin'' \<in> set [''bitcoin'', ''ethereum'']
   \<and> ''solana'' \<notin> set [''bitcoin'', ''ethereum'']
   \<and> distinct (toggleFavorite ''bitcoin'' [''bitcoin'', ''ethereum''])
   \<and> toggleFavorite ''bitcoin'' [''bitcoin'', ''ethereum''] = [''ethereum'']
   \<and> distinct (toggleFavorite ''solana'' [''bitcoin'', ''ethereum''])
   \<and> toggleFavorite ''solana'' [''bitcoin'', ''ethereum''] = [''bitcoin'', ''ethereum'', ''solana'']"
  using toggleFavorite_distinct [of "[''bitcoin'', ''ethereum'']" "''bitcoin''"]
        toggleFavorite_distinct [of "[''bitcoin'', ''ethereum'']" "''solana''"]
  by simp


section \<open>Listing refresh\<close>

subsection \<open>When the mapping of the payload throws\<close>

lemma callMap_not_array: "(\<forall>xs. d \<noteq> JArr xs) \<Longrightarrow> \<exists>e. callMap d f = Inl e"
  by (cases d) simp_all

lemma getField_throws: "(\<exists>e. getField x k = Inl e) \<longleftrightarrow> x = JNull \<or> x = JUndefined"
  by (cases x) auto

lemma withFavorite_throws: "withFavorite favs x = Inl e \<longleftrightarrow> getField x ''id'' = Inl e"
  by (simp add: withFavorite_def split: sum.splits)

lemma mapThrowing_Inl:
  "(\<exists>e. mapThrowing f xs = Inl e) \<longleftrightarrow> (\<exists>x \<in> set xs. \<exists>e. f x = Inl e)"
  by (induction xs) (auto split: sum.splits)

lemma mapThrowing_Inr_length:
  "mapThrowing f xs = Inr ys \<Longrightarrow> length ys = length xs"
  by (induction xs arbitrary: ys) (auto split: sum.splits)

lemma mapThrowing_Inr_map:
  "mapThrowing f xs = Inr ys \<Longrightarrow> map Inr ys = map f xs"
  by (induction xs arbitrary: ys) (auto split: sum.splits)

lemma listing_throws_iff:
  "(\<exists>e. callMap (JArr xs) (withFavorite favs) = Inl e) \<longleftrightarrow> JNull \<in> set xs \<or> JUndefined \<in> set xs"
proof -
  have "(\<exists>e. withFavorite favs x = Inl e) \<longleftrightarrow> x = JNull \<or> x = JUndefined" for x
    unfolding withFavorite_throws by (rule getField_throws)
  then show ?thesis by (auto simp: mapThrowing_Inl)
qed

subsection \<open>The two ways out of \<open>fetchCryptos\<close>\<close>

lemma fetchCryptos_caught:
  "cryptosWithFavorites favs fetched = Inl err \<Longrightarrow>
     fetchCryptos favs fetched s = s\<lparr>loading := False, error := Some (errorMessage err)\<rparr>"
  by (simp add: fetchCryptos_def)

lemma fetchCryptos_installed:
  "cryptosWithFavorites favs fetched = Inr cs \<Longrightarrow>
     fetchCryptos favs fetched s
       = s\<lparr>cryptos := cs, filteredCryptos := cs, loading := False, error := None\<rparr>"
  by (simp add: fetchCryptos_def)

text \<open>
  Claim C6, as stated, fails for a malformed payload that is still a JSON array: the
  body \<open>[{}]\<close> holds no asset (no identifier, name or price), yet nothing throws, the
  snapshot of two assets is replaced by one object that has only the \<open>favorite\<close> flag,
  and no error message is set.
\<close>

theorem fetchCryptos_counterexample:
  "cryptos (fetchCryptos [] (Inr (Response True (Inr (JArr [JObj fmempty])))) snapshot0)
     = [JObj (fmupd ''favorite'' (JBool False) fmempty)]
   \<and> cryptos (fetchCryptos [] (Inr (Response True (Inr (JArr [JObj fmempty])))) snapshot0)
     \<noteq> cryptos snapshot0
   \<and> error (fetchCryptos [] (Inr (Response True (Inr (JArr [JObj fmempty])))) snapshot0) = None"
  by (simp add: fetchCryptos_def cryptosWithFavorites_def withFavorite_def snapshot0_def)

text \<open>
  Claim C6, amended.  When the refresh fails by a network error, by a status that is not
  a success, by a body that is not JSON, by a JSON value that is not an array, or by an
  array with a \<open>null\<close> element, then \<open>cryptos\<close> and \<open>filteredCryptos\<close> are left as
  they were and \<open>error\<close> is set to a message (only \<open>loading\<close> and \<open>error\<close>
  change).  Every other JSON array is installed as the snapshot with no error, whatever
  the shape of its elements: element by element, the new snapshot holds what the
  callback \<open>withFavorite\<close> returns.
\<close>

theorem fetchCryptos_failure:
  "fetchCryptos favs (Inl e) s = s\<lparr>loading := False, error := Some (errorMessage e)\<rparr>
   \<and> fetchCryptos favs (Inr (Response False body)) s
       = s\<lparr>loading := False,
           error := Some ''Failed to fetch data. API rate limit may have been reached.''\<rparr>
   \<and> fetchCryptos favs (Inr (Response True (Inl e))) s
       = s\<lparr>loading := False, error := Some (errorMessage e)\<rparr>
   \<and> ((\<forall>xs. d \<noteq> JArr xs) \<longrightarrow>
        (\<exists>e. fetchCryptos favs (Inr (Response True (Inr d))) s
               = s\<lparr>loading := False, error := Some (errorMessage e)\<rparr>))
   \<and> (JNull \<in> set xs \<or> JUndefined \<in> set xs \<longrightarrow>
        (\<exists>e. fetchCryptos favs (Inr (Response True (Inr (JArr xs)))) s
               = s\<lparr>loading := False, error := Some (errorMessage e)\<rparr>))
   \<and> (JNull \<notin> set xs \<and> JUndefined \<notin> set xs \<longrightarrow>
        (\<exists>cs. length cs = length xs
            \<and> map Inr cs = map (withFavorite favs) xs
            \<and> fetchCryptos favs (Inr (Response True (Inr (JArr xs)))) s
               = s\<lparr>cryptos := cs, filteredCryptos := cs, loading := False, error := None\<rparr>))"
proof (intro conjI impI)
  show "fetchCryptos favs (Inl e) s = s\<lparr>loading := False, error := Some (errorMessage e)\<rparr>"
    by (rule fetchCryptos_caught) (simp add: cryptosWithFavorites_def)
  show "fetchCryptos favs (Inr (Response False body)) s
       = s\<lparr>loading := False,
           error := Some ''Failed to fetch data. API rate limit may have been reached.''\<rparr>"
    by (simp add: fetchCryptos_def cryptosWithFavorites_def)
  show "fetchCryptos favs (Inr (Response True (Inl e))) s
       = s\<lparr>loading := False, error := Some (errorMessage e)\<rparr>"
    by (rule fetchCryptos_caught) (simp add: cryptosWithFavorites_def)
next
  assume "\<forall>xs. d \<noteq> JArr xs"
  then obtain e where "callMap d (withFavorite favs) = Inl e"
    using callMap_not_array by blast
  then have "cryptosWithFavorites favs (Inr (Response True (Inr d))) = Inl e"
    by (simp add: cryptosWithFavorites_def)
  then show "\<exists>e. fetchCryptos favs (Inr (Response True (Inr d))) s
               = s\<lparr>loading := False, error := Some (errorMessage e)\<rparr>"
    using fetchCryptos_caught by blast
next
  assume "JNull \<in> set xs \<or> JUndefined \<in> set xs"
  then obtain e where "callMap (JArr xs) (withFavorite favs) = Inl e"
    using listing_throws_iff by blast
  then have "cryptosWithFavorites favs (Inr (Response True (Inr (JArr xs)))) = Inl e"
    by (simp add: cryptosWithFavorites_def)
  then show "\<exists>e. fetchCryptos favs (Inr (Response True (Inr (JArr xs)))) s
               = s\<lparr>loading := False, error := Some (errorMessage e)\<rparr>"
    using fetchCryptos_caught by blast
next
  assume "JNull \<notin> set xs \<and> JUndefined \<notin> set xs"
  then have "\<not> (\<exists>e. callMap (JArr xs) (withFavorite favs) = Inl e)"
    using listing_throws_iff by blast
  then obtain cs where cs: "callMap (JArr xs) (withFavorite favs) = Inr cs"
    by (cases "callMap (JArr xs) (withFavorite favs)") auto
  then have "length cs = length xs" by (simp add: mapThrowing_Inr_length)
  moreover from cs have "map Inr cs = map (withFavorite favs) xs"
    by (simp add: mapThrowing_Inr_map)
  moreover from cs have "cryptosWithFavorites favs (Inr (Response True (Inr (JArr xs)))) = Inr cs"
    by (simp add: cryptosWithFavorites_def)
  then have "fetchCryptos favs (Inr (Response True (Inr (JArr xs)))) s
               = s\<lparr>cryptos := cs, filteredCryptos := cs, loading := False, error := None\<rparr>"
    by (rule fetchCryptos_installed)
  ultimately show "\<exists>cs. length cs = length xs
            \<and> map Inr cs = map (withFavorite favs) xs
            \<and> fetchCryptos favs (Inr (Response True (Inr (JArr xs)))) s
               = s\<lparr>cryptos := cs, filteredCryptos := cs, loading := False, error := None\<rparr>"
    by blast
qed

text \<open>
  An object in place of the array, and an array with a \<open>null\<close> in it, leave the
  snapshot alone and set an error; an array of one listed asset is installed.
\<close>

theorem fetchCryptos_failure_witness:
  "(\<forall>xs. JObj fmempty \<noteq> JArr xs) \<and> JNull \<in> set [listed ''bitcoin'', JNull]
   \<and> JNull \<notin> set [listed ''bitcoin''] \<and> JUndefined \<notin> set [listed ''bitcoin'']
   \<and> cryptos (fetchCryptos [] (Inr (Response True (Inr (JObj fmempty)))) snapshot0) = cryptos snapshot0
   \<and> error (fetchCryptos [] (Inr (Response True (Inr (JObj fmempty)))) snapshot0) \<noteq> None
   \<and> cryptos (fetchCryptos [] (Inr (Response True (Inr (JArr [listed ''bitcoin'', JNull])))) snapshot0)
       = cryptos snapshot0
   \<and> error (fetchCryptos [] (Inr (Response True (Inr (JArr [listed ''bitcoin'', JNull])))) snapshot0)
       \<noteq> None
   \<and> length (cryptos (fetchCryptos [] (Inr (Response True (Inr (JArr [listed ''bitcoin''])))) snapshot0)) = 1
   \<and> error (fetchCryptos [] (Inr (Response True (Inr (JArr [listed ''bitcoin''])))) snapshot0) = None"
proof -
  have h1: "\<forall>xs. JObj fmempty \<noteq> JArr xs" by simp
  have h2: "JNull \<in> set [listed ''bitcoin'', JNull] \<or> JUndefined \<in> set [listed ''bitcoin'', JNull]"
    by simp
  have h3: "JNull \<notin> set [listed ''bitcoin''] \<and> JUndefined \<notin> set [listed ''bitcoin'']"
    by (simp add: listed_def)
  note t1 = fetchCryptos_failure [of "[]" NonError snapshot0 "Inr JNull" "JObj fmempty" "[]"]
  note t2 = fetchCryptos_failure [of "[]" NonError snapshot0 "Inr JNull" JNull "[listed ''bitcoin'', JNull]"]
  note t3 = fetchCryptos_failure [of "[]" NonError snapshot0 "Inr JNull" JNull "[listed ''bitcoin'']"]
  from t1 h1 obtain e1 where
    "fetchCryptos [] (Inr (Response True (Inr (JObj fmempty)))) snapshot0
       = snapshot0\<lparr>loading := False, error := Some (errorMessage e1)\<rparr>" by blast
  then have a: "cryptos (fetchCryptos [] (Inr (Response True (Inr (JObj fmempty)))) snapshot0) = cryptos snapshot0"
    "error (fetchCryptos [] (Inr (Response True (Inr (JObj fmempty)))) snapshot0) \<noteq> None"
    by simp_all
  from t2 h2 obtain e2 where
    "fetchCryptos [] (Inr (Response True (Inr (JArr [listed ''bitcoin'', JNull])))) snapshot0
       = snapshot0\<lparr>loading := False, error := Some (errorMessage e2)\<rparr>" by blast
  then have b: "cryptos (fetchCryptos [] (Inr (Response True (Inr (JArr [listed ''bitcoin'', JNull])))) snapshot0) = cryptos snapshot0"
    "error (fetchCryptos [] (Inr (Response True (Inr (JArr [listed ''bitcoin'', JNull])))) snapshot0) \<noteq> None"
    by simp_all
  from t3 h3 obtain cs where "length cs = length [listed ''bitcoin'']"
    "fetchCryptos [] (Inr (Response True (Inr (JArr [listed ''bitcoin''])))) snapshot0
       = snapshot0\<lparr>cryptos := cs, filteredCryptos := cs, loading := False, error := None\<rparr>"
    by blast
  then have c: "length (cryptos (fetchCryptos [] (Inr (Response True (Inr (JArr [listed ''bitcoin''])))) snapshot0)) = 1"
    "error (fetchCryptos [] (Inr (Response True (Inr (JArr [listed ''bitcoin''])))) snapshot0) = None"
    by simp_all
  from h1 h2 h3 a b c show ?thesis by simp
qed


section \<open>Where a fetch error ends up\<close>

lemma chart_unavailable_fails:
  "formattedData (chart_unavailable n) = Inl (ErrorObject ''Failed to fetch chart data'')"
  by (simp add: formattedData_def chart_unavailable_def)

text \<open>\<open>fetchHistoricalData\<close> has no call of \<open>setError\<close>, on either way out.\<close>

lemma fetchHistoricalData_error:
  "detail_error (fetchHistoricalData market_chart r d) = detail_error d"
  by (simp add: fetchHistoricalData_def split: sum.splits)

text \<open>
  On the detail path every JSON value is stored by \<open>setDetailData\<close> unseen, whatever
  the chart request does afterwards.
\<close>

lemma fetchCryptoDetail_any_json:
  "detail_error (fetchCryptoDetail (Inr (Response True (Inr v))) market_chart d) = None
   \<and> detailData (fetchCryptoDetail (Inr (Response True (Inr v))) market_chart d) = v"
  by (simp add: fetchCryptoDetail_def fetchHistoricalData_def Let_def split: sum.splits)

lemma fetchCryptos_error_caught:
  "cryptosWithFavorites favs fetched = Inl err \<Longrightarrow>
     error (fetchCryptos favs fetched s) = Some (errorMessage err)"
  by (simp add: fetchCryptos_caught)

lemma fetchCryptos_error_installed:
  "cryptosWithFavorites favs fetched = Inr cs \<Longrightarrow> error (fetchCryptos favs fetched s) = None"
  by (simp add: fetchCryptos_installed)

text \<open>
  Claim C7, as stated, fails for the historical series: when the chart request is
  answered with a status that is not a success, \<open>fetchHistoricalData\<close> leaves \<open>error\<close>
  at \<open>null\<close> and nothing is shown, whether it was started by a range button or by
  \<open>fetchCryptoDetail\<close>.
\<close>

theorem fetchHistoricalData_counterexample:
  "detail_error (fetchHistoricalData chart_unavailable R30d detail0) = None
   \<and> \<not> errorShown (detail_error (fetchHistoricalData chart_unavailable R30d detail0))
   \<and> \<not> errorShown (detail_error
         (fetchCryptoDetail (Inr (Response True (Inr (JObj fmempty)))) chart_unavailable detail0))"
  by (simp add: fetchHistoricalData_def fetchCryptoDetail_def chart_unavailable_fails
        detail0_def errorShown_def)

text \<open>
  Claim C7, amended.  Which fetch errors reach the user:
  \<^item> Listing refresh.  A network error, a status that is not a success and a body that
    is not JSON set \<open>error\<close> to the message of the exception.  Of the payloads that
    are JSON, one that is not an array and an array with a \<open>null\<close> element set
    \<open>error\<close> to the message of the exception that the mapping raises; every other
    array, malformed or not, sets no error.
  \<^item> Detail fetch.  A network error, a status that is not a success and a body that is
    not JSON set \<open>detail_error\<close> to the message of the exception.  Every payload that
    is JSON, malformed or not, is stored and sets no error.
  \<^item> The page shows an error state exactly when its message is not the empty string;
    the two messages for a status that is not a success are fixed and not empty.
  \<^item> Historical series.  \<open>fetchHistoricalData\<close> never changes the error state.  Every
    failure of it (network error, status that is not a success, body that is not JSON,
    payload on which the mapping throws) is caught inside: the exception goes to the
    console and the rest of the state, chart data and time range included, stays as it
    was, also when the fetch was started by \<open>fetchCryptoDetail\<close>.
\<close>

theorem fetch_errors_surfaced:
  "error (fetchCryptos favs (Inl e) s) = Some (errorMessage e)
   \<and> error (fetchCryptos favs (Inr (Response False body)) s)
       = Some ''Failed to fetch data. API rate limit may have been reached.''
   \<and> error (fetchCryptos favs (Inr (Response True (Inl e))) s) = Some (errorMessage e)
   \<and> ((\<forall>xs. v \<noteq> JArr xs) \<longrightarrow>
        (\<exists>e'. callMap v (withFavorite favs) = Inl e'
            \<and> error (fetchCryptos favs (Inr (Response True (Inr v))) s) = Some (errorMessage e')))
   \<and> (JNull \<in> set xs \<or> JUndefined \<in> set xs \<longrightarrow>
        (\<exists>e'. callMap (JArr xs) (withFavorite favs) = Inl e'
            \<and> error (fetchCryptos favs (Inr (Response True (Inr (JArr xs)))) s)
                = Some (errorMessage e')))
   \<and> (JNull \<notin> set xs \<and> JUndefined \<notin> set xs \<longrightarrow>
        error (fetchCryptos favs (Inr (Response True (Inr (JArr xs)))) s) = None)
   \<and> detail_error (fetchCryptoDetail (Inl e) market_chart d) = Some (errorMessage e)
   \<and> detail_error (fetchCryptoDetail (Inr (Response False body)) market_chart d)
       = Some ''Failed to fetch detailed data. API rate limit may have been reached.''
   \<and> detail_error (fetchCryptoDetail (Inr (Response True (Inl e))) market_chart d)
       = Some (errorMessage e)
   \<and> detail_error (fetchCryptoDetail (Inr (Response True (Inr v))) market_chart d) = None
   \<and> detailData (fetchCryptoDetail (Inr (Response True (Inr v))) market_chart d) = v
   \<and> errorShown (Some (errorMessage e)) = (errorMessage e \<noteq> [])
   \<and> errorShown None = False
   \<and> errorShown (error (fetchCryptos favs (Inr (Response False body)) s))
   \<and> errorShown (detail_error (fetchCryptoDetail (Inr (Response False body)) market_chart d))
   \<and> formattedData (Inl e) = Inl e
   \<and> formattedData (Inr (Response False body)) = Inl (ErrorObject ''Failed to fetch chart data'')
   \<and> formattedData (Inr (Response True (Inl e))) = Inl e
   \<and> detail_error (fetchHistoricalData market_chart r d) = detail_error d
   \<and> (formattedData (market_chart (days r)) = Inl e \<longrightarrow>
         fetchHistoricalData market_chart r d = d\<lparr>console := console d @ [e]\<rparr>)
   \<and> (formattedData (market_chart (days (timeRange d))) = Inl e \<longrightarrow>
         fetchCryptoDetail (Inr (Response True (Inr v))) market_chart d
           = d\<lparr>detailData := v, detail_loading := False, detail_error := None,
                console := console d @ [e]\<rparr>)"
proof -
  have l1: "error (fetchCryptos favs (Inl e) s) = Some (errorMessage e)"
    by (rule fetchCryptos_error_caught) (simp add: cryptosWithFavorites_def)
  have l2: "error (fetchCryptos favs (Inr (Response False body)) s)
       = Some ''Failed to fetch data. API rate limit may have been reached.''"
    by (simp add: fetchCryptos_def cryptosWithFavorites_def)
  have l3: "error (fetchCryptos favs (Inr (Response True (Inl e))) s) = Some (errorMessage e)"
    by (rule fetchCryptos_error_caught) (simp add: cryptosWithFavorites_def)
  have l4: "\<exists>e'. callMap v (withFavorite favs) = Inl e'
            \<and> error (fetchCryptos favs (Inr (Response True (Inr v))) s) = Some (errorMessage e')"
    if "\<forall>xs. v \<noteq> JArr xs"
  proof -
    from that obtain e' where e': "callMap v (withFavorite favs) = Inl e'"
      using callMap_not_array by blast
    then have "cryptosWithFavorites favs (Inr (Response True (Inr v))) = Inl e'"
      by (simp add: cryptosWithFavorites_def)
    then have "error (fetchCryptos favs (Inr (Response True (Inr v))) s) = Some (errorMessage e')"
      by (rule fetchCryptos_error_caught)
    with e' show ?thesis by blast
  qed
  have l5: "\<exists>e'. callMap (JArr xs) (withFavorite favs) = Inl e'
            \<and> error (fetchCryptos favs (Inr (Response True (Inr (JArr xs)))) s)
                = Some (errorMessage e')"
    if "JNull \<in> set xs \<or> JUndefined \<in> set xs"
  proof -
    from that obtain e' where e': "callMap (JArr xs) (withFavorite favs) = Inl e'"
      using listing_throws_iff by blast
    then have "cryptosWithFavorites favs (Inr (Response True (Inr (JArr xs)))) = Inl e'"
      by (simp add: cryptosWithFavorites_def)
    then have "error (fetchCryptos favs (Inr (Response True (Inr (JArr xs)))) s)
        = Some (errorMessage e')"
      by (rule fetchCryptos_error_caught)
    with e' show ?thesis by blast
  qed
  have l6: "error (fetchCryptos favs (Inr (Response True (Inr (JArr xs)))) s) = None"
    if "JNull \<notin> set xs \<and> JUndefined \<notin> set xs"
  proof -
    from that have "\<not> (\<exists>e'. callMap (JArr xs) (withFavorite favs) = Inl e')"
      using listing_throws_iff by blast
    then obtain cs where "callMap (JArr xs) (withFavorite favs) = Inr cs"
      by (cases "callMap (JArr xs) (withFavorite favs)") auto
    then have "cryptosWithFavorites favs (Inr (Response True (Inr (JArr xs)))) = Inr cs"
      by (simp add: cryptosWithFavorites_def)
    then show ?thesis by (rule fetchCryptos_error_installed)
  qed
  have d1: "detail_error (fetchCryptoDetail (Inl e) market_chart d) = Some (errorMessage e)"
    by (simp add: fetchCryptoDetail_def)
  have d2: "detail_error (fetchCryptoDetail (Inr (Response False body)) market_chart d)
       = Some ''Failed to fetch detailed data. API rate limit may have been reached.''"
    by (simp add: fetchCryptoDetail_def)
  have d3: "detail_error (fetchCryptoDetail (Inr (Response True (Inl e))) market_chart d)
       = Some (errorMessage e)"
    by (simp add: fetchCryptoDetail_def)
  have d4: "detail_error (fetchCryptoDetail (Inr (Response True (Inr v))) market_chart d) = None"
    "detailData (fetchCryptoDetail (Inr (Response True (Inr v))) market_chart d) = v"
    using fetchCryptoDetail_any_json [of v market_chart d] by simp_all
  have v1: "errorShown (Some (errorMessage e)) = (errorMessage e \<noteq> [])"
    "errorShown None = False"
    by (simp_all add: errorShown_def)
  have v2: "errorShown (error (fetchCryptos favs (Inr (Response False body)) s))"
    unfolding l2 by (simp add: errorShown_def)
  have v3: "errorShown (detail_error (fetchCryptoDetail (Inr (Response False body)) market_chart d))"
    unfolding d2 by (simp add: errorShown_def)
  have h1: "formattedData (Inl e) = Inl e"
    "formattedData (Inr (Response False body)) = Inl (ErrorObject ''Failed to fetch chart data'')"
    "formattedData (Inr (Response True (Inl e))) = Inl e"
    by (simp_all add: formattedData_def)
  have h2: "detail_error (fetchHistoricalData market_chart r d) = detail_error d"
    by (rule fetchHistoricalData_error)
  have h3: "fetchHistoricalData market_chart r d = d\<lparr>console := console d @ [e]\<rparr>"
    if "formattedData (market_chart (days r)) = Inl e"
    using that by (simp add: fetchHistoricalData_def)
  have h4: "fetchCryptoDetail (Inr (Response True (Inr v))) market_chart d
           = d\<lparr>detailData := v, detail_loading := False, detail_error := None,
                console := console d @ [e]\<rparr>"
    if "formattedData (market_chart (days (timeRange d))) = Inl e"
    using that by (simp add: fetchCryptoDetail_def fetchHistoricalData_def)
  from l1 l2 l3 l4 l5 l6 d1 d2 d3 d4 v1 v2 v3 h1 h2 h3 h4 show ?thesis
    by (intro conjI impI)
qed

text \<open>
  The chart request that is refused, from a range button and from the detail fetch; a
  listing and a detail payload that is JSON and holds nothing of an asset (\<open>[{}]\<close> and
  \<open>{}\<close>); and a listing payload that is an object.
\<close>

theorem fetch_errors_surfaced_witness:
  "formattedData (chart_unavailable (days R30d)) = Inl (ErrorObject ''Failed to fetch chart data'')
   \<and> fetchHistoricalData chart_unavailable R30d detail0
     = detail0\<lparr>console := [ErrorObject ''Failed to fetch chart data'']\<rparr>
   \<and> formattedData (chart_unavailable (days (timeRange detail0)))
     = Inl (ErrorObject ''Failed to fetch chart data'')
   \<and> fetchCryptoDetail (Inr (Response True (Inr (JObj fmempty)))) chart_unavailable detail0
     = detail0\<lparr>detailData := JObj fmempty,
                console := [ErrorObject ''Failed to fetch chart data'']\<rparr>
   \<and> (\<forall>xs. JObj fmempty \<noteq> JArr xs)
   \<and> error (fetchCryptos [] (Inr (Response True (Inr (JObj fmempty)))) snapshot0) \<noteq> None
   \<and> JNull \<notin> set [JObj fmempty] \<and> JUndefined \<notin> set [JObj fmempty]
   \<and> error (fetchCryptos [] (Inr (Response True (Inr (JArr [JObj fmempty])))) snapshot0) = None
   \<and> JNull \<in> set [JNull]
   \<and> error (fetchCryptos [] (Inr (Response True (Inr (JArr [JNull])))) snapshot0) \<noteq> None"
proof -
  note t = fetch_errors_surfaced [where favs = "[]"
      and e = "ErrorObject ''Failed to fetch chart data''" and s = snapshot0 and body = "Inr JNull"
      and market_chart = chart_unavailable and d = detail0 and r = R30d
      and v = "JObj fmempty"]
  from t [where xs = "[]"] chart_unavailable_fails [of "days R30d"]
  have a: "fetchHistoricalData chart_unavailable R30d detail0
     = detail0\<lparr>console := console detail0 @ [ErrorObject ''Failed to fetch chart data'']\<rparr>"
    by blast
  from t [where xs = "[]"] chart_unavailable_fails [of "days (timeRange detail0)"]
  have b: "fetchCryptoDetail (Inr (Response True (Inr (JObj fmempty)))) chart_unavailable detail0
     = detail0\<lparr>detailData := JObj fmempty, detail_loading := False, detail_error := None,
                console := console detail0 @ [ErrorObject ''Failed to fetch chart data'']\<rparr>"
    by blast
  have h1: "\<forall>xs. JObj fmempty \<noteq> JArr xs" by simp
  from t [where xs = "[]"] h1 obtain e1 where
    "error (fetchCryptos [] (Inr (Response True (Inr (JObj fmempty)))) snapshot0)
       = Some (errorMessage e1)"
    by blast
  then have c: "error (fetchCryptos [] (Inr (Response True (Inr (JObj fmempty)))) snapshot0) \<noteq> None"
    by simp
  have h2: "JNull \<notin> set [JObj fmempty] \<and> JUndefined \<notin> set [JObj fmempty]" by simp
  from t [where xs = "[JObj fmempty]"] h2
  have f: "error (fetchCryptos [] (Inr (Response True (Inr (JArr [JObj fmempty])))) snapshot0) = None"
    by blast
  have h3: "JNull \<in> set [JNull] \<or> JUndefined \<in> set [JNull]" by simp
  from t [where xs = "[JNull]"] h3 obtain e2 where
    "error (fetchCryptos [] (Inr (Response True (Inr (JArr [JNull])))) snapshot0)
       = Some (errorMessage e2)"
    by blast
  then have g: "error (fetchCryptos [] (Inr (Response True (Inr (JArr [JNull])))) snapshot0) \<noteq> None"
    by simp
  from a b c f g h1 h2 chart_unavailable_fails [of "days R30d"]
    chart_unavailable_fails [of "days (timeRange detail0)"]
  show ?thesis by (simp add: detail0_def)
qed


section \<open>Loading the favorites\<close>

text \<open>
  Claim C8, as stated, fails for a stored value that is not JSON: \<open>JSON.parse\<close> throws
  on \<open>{not json\<close>, nothing catches the exception, and the effect ends with it instead
  of an empty list of favorites.
\<close>

theorem loadFavorites_counterexample:
  "loadFavorites (Some ''{not json'') (Inl (ErrorObject ''Unexpected token n in JSON at position 1''))
     = Inl (ErrorObject ''Unexpected token n in JSON at position 1'')
   \<and> loadFavorites (Some ''{not json'') (Inl (ErrorObject ''Unexpected token n in JSON at position 1''))
     \<noteq> Inr (JArr [])"
  by (simp add: loadFavorites_def)

text \<open>
  Claim C8, amended.  When the stored value is absent (or is the empty string), loading
  raises nothing and the favorites stay the empty list.  When a value is stored,
  loading does what \<open>JSON.parse\<close> does with it: the parsed value becomes the favorites
  as it is, and an exception of the parser leaves the effect uncaught.
\<close>

theorem loadFavorites_soft_on_absent:
  "loadFavorites None parsed = Inr (JArr [])
   \<and> loadFavorites (Some []) parsed = Inr (JArr [])
   \<and> (saved \<noteq> [] \<longrightarrow>
         loadFavorites (Some saved) (Inl e) = Inl e
       \<and> loadFavorites (Some saved) (Inr v) = Inr v)"
  by (simp add: loadFavorites_def)

text \<open>The stored text \<open>null\<close>: a parser that throws, and the parser's value \<open>null\<close>.\<close>

theorem loadFavorites_soft_on_absent_witness:
  "''null'' \<noteq> []
   \<and> loadFavorites (Some ''null'') (Inl NonError) = Inl NonError
   \<and> loadFavorites (Some ''null'') (Inr JNull) = Inr JNull"
  using loadFavorites_soft_on_absent
    [where parsed = "Inr JNull" and saved = "''null''" and e = NonError and v = JNull]
  by simp


section \<open>The percentage shown in the detail header\<close>

text \<open>
  Claim C9.  With \<open>market_data\<close> the value of \<open>detailData.market_data\<close>, the percentage
  for range \<open>90d\<close> is the field \<open>price_change_percentage_60d\<close> of it (the key that is
  built is not the 90 day one), and each other range reads the field of its own name.
\<close>

theorem priceChangePercent_field:
  assumes "getField detail ''market_data'' = Inr market_data"
  shows "priceChangePercent detail R90d = getField market_data ''price_change_percentage_60d''
       \<and> priceChangePercent detail R24h = getField market_data ''price_change_percentage_24h''
       \<and> priceChangePercent detail R7d = getField market_data ''price_change_percentage_7d''
       \<and> priceChangePercent detail R30d = getField market_data ''price_change_percentage_30d''
       \<and> priceChangePercent detail R1y = getField market_data ''price_change_percentage_1y''
       \<and> priceChangeKey R90d \<noteq> ''price_change_percentage_90d''"
  using assms by (simp add: priceChangePercent_def priceChangeKey_def)

text \<open>An object with both a 60 day field (4) and a 90 day field (5): range \<open>90d\<close> shows 4.\<close>

theorem priceChangePercent_field_witness:
  "getField (JObj (fmap_of_list [(''market_data'', market0)])) ''market_data'' = Inr market0
   \<and> priceChangePercent (JObj (fmap_of_list [(''market_data'', market0)])) R90d = Inr (JNum 4)
   \<and> priceChangePercent (JObj (fmap_of_list [(''market_data'', market0)])) R30d = Inr (JNum 3)"
proof -
  have h: "getField (JObj (fmap_of_list [(''market_data'', market0)])) ''market_data'' = Inr market0"
    by simp
  have "getField market0 ''price_change_percentage_60d'' = Inr (JNum 4)"
    "getField market0 ''price_change_percentage_30d'' = Inr (JNum 3)"
    by (simp_all add: market0_def)
  with priceChangePercent_field [OF h] h show ?thesis by simp
qed

end
